theory Spec2Isabelle
  imports Complex_Main "HOL-Library.Word"
begin

section \<open>The eye-tracking session engine of gazeapi.cpp\<close>

text \<open>
  A shallow embedding of \<^verbatim>\<open>src/src/gazeapi.cpp\<close>: the class \<^verbatim>\<open>CalibrationProxy\<close> and the
  class \<^verbatim>\<open>GazeApi::Engine\<close>. Member functions take the object as an explicit state and
  return the updated one. Everything the engine does to the outside world (calls on the
  socket, calls on registered listeners) is returned as a list of events, in the order of
  the calls.

  The headers \<^verbatim>\<open>gazeapi_types.h\<close>, \<^verbatim>\<open>gazeapi_parser.hpp\<close>, \<^verbatim>\<open>gazeapi_socket.hpp\<close> and
  \<^verbatim>\<open>gazeapi_observable.hpp\<close> are not among the sources. What the engine needs of them is
  either taken as a parameter (the outcome of each \<^verbatim>\<open>Parser\<close> call on a message, the
  socket's \<^verbatim>\<open>get_id\<close>, what the socket delivers while a call blocks) or, for the plain
  data types, modelled from the specification; each such place says so.
\<close>

subsection \<open>Numbers and text\<close>

text \<open>
  \<^verbatim>\<open>size_t\<close> is a 64-bit unsigned word (LP64); \<^verbatim>\<open>++\<close> wraps. A C++ \<^verbatim>\<open>int\<close> that is only
  stored, compared and printed is an \<^typ>\<open>int\<close>. A \<^verbatim>\<open>double\<close> is its exact value, or
  \<open>NotFinite\<close> for what a division by zero yields; rounding to 53 bits is not modelled.
\<close>

type_synonym size_t = "64 word"

datatype cdouble = Finite real | NotFinite

definition double_of_size_t :: "size_t \<Rightarrow> cdouble" where
  "double_of_size_t n = Finite (real (unat n))"

fun double_div :: "cdouble \<Rightarrow> cdouble \<Rightarrow> cdouble" where
  "double_div (Finite x) (Finite y) = (if y = 0 then NotFinite else Finite (x / y))"
| "double_div _ _ = NotFinite"

text \<open>Stream insertion of an unsigned and of a signed integer: decimal digits.\<close>

fun show_nat :: "nat \<Rightarrow> string" where
  "show_nat n =
     (if n < 10 then [''0123456789'' ! n]
      else show_nat (n div 10) @ [''0123456789'' ! (n mod 10)])"

declare show_nat.simps [simp del]

definition show_int :: "int \<Rightarrow> string" where
  "show_int i = (if i < 0 then ''-'' @ show_nat (nat (- i)) else show_nat (nat i))"

subsection \<open>CalibrationProxy (lines 39-90)\<close>

record CalibrationProxy =
  m_point_count :: size_t
  m_processed_points :: size_t
  m_is_calibrating :: bool

definition CalibrationProxy_init :: CalibrationProxy where
  "CalibrationProxy_init =
     \<lparr>m_point_count = 0, m_processed_points = 0, m_is_calibrating = False\<rparr>"

definition start_calibration :: "size_t \<Rightarrow> CalibrationProxy \<Rightarrow> CalibrationProxy" where
  "start_calibration point_count p = p\<lparr>m_point_count := point_count, m_is_calibrating := True\<rparr>"

definition point_start :: "CalibrationProxy \<Rightarrow> CalibrationProxy" where
  "point_start p = p"

definition point_end :: "CalibrationProxy \<Rightarrow> CalibrationProxy" where
  "point_end p = p\<lparr>m_processed_points := m_processed_points p + 1\<rparr>"

definition is_done :: "CalibrationProxy \<Rightarrow> bool" where
  "is_done p = (m_processed_points p = m_point_count p)"

definition is_calibrating :: "CalibrationProxy \<Rightarrow> bool" where
  "is_calibrating p = m_is_calibrating p"

definition get_progress :: "CalibrationProxy \<Rightarrow> cdouble" where
  "get_progress p =
     (if 0 = m_point_count p then Finite 0
      else double_div (double_of_size_t (m_processed_points p))
                      (double_of_size_t (m_point_count p)))"

definition CalibrationProxy_clear :: "CalibrationProxy \<Rightarrow> CalibrationProxy" where
  "CalibrationProxy_clear p =
     p\<lparr>m_point_count := 0, m_processed_points := 0, m_is_calibrating := False\<rparr>"

subsection \<open>The data types of gazeapi_types.h\<close>

text \<open>
  Modelled from the spec: \<^verbatim>\<open>gazeapi_types.h\<close> is missing. The enumerations have the
  values the engine names and the specification lists (category: tracker, calibration,
  unknown; request: get, set, start, point-start, point-end, abort, clear, unknown;
  status code: ok, error and the three notifications).
\<close>

datatype GazeApiCategory = GAC_UNKNOWN | GAC_TRACKER | GAC_CALIBRATION

datatype GazeApiRequest =
  GAR_UNKNOWN | GAR_GET | GAR_SET | GAR_START | GAR_POINTSTART | GAR_POINTEND
  | GAR_ABORT | GAR_CLEAR

datatype GazeApiStatusCode =
  GASC_OK | GASC_ERROR | GASC_CALIBRATION_CHANGE | GASC_DISPLAY_CHANGE
  | GASC_TRACKER_STATE_CHANGE

text \<open>
  Modelled from the spec: the snapshot entities of section 3. \<open>ServerState\<close> has the
  members the engine reads (\<^verbatim>\<open>version\<close>, \<^verbatim>\<open>trackerstate\<close>) and the frame rate and
  calibration flags; \<open>Screen\<close> has the five members \<^verbatim>\<open>set_screen\<close> prints and is compared
  by value; \<open>CalibResult\<close> has the success flag \<^verbatim>\<open>result\<close> and per-point data;
  \<open>GazeData\<close> has the members the demo reader prints. Floats are their exact values.
\<close>

record ServerState =
  version :: int
  trackerstate :: int
  framerate :: int
  iscalibrated :: bool
  iscalibrating :: bool

record Screen =
  screenindex :: int
  screenresw :: int
  screenresh :: int
  screenpsyw :: real
  screenpsyh :: real

record GazeData =
  gd_time :: int
  gd_state :: int
  gd_fix :: bool
  gd_raw :: "real \<times> real"
  gd_avg :: "real \<times> real"

record CalibResult =
  result :: bool
  calibpoints :: "real list"

text \<open>What \<^verbatim>\<open>memset(&x, 0, sizeof x)\<close> leaves in each, and \<^verbatim>\<open>CalibResult::clear\<close>.\<close>

definition ServerState_zero :: ServerState where
  "ServerState_zero =
     \<lparr>version = 0, trackerstate = 0, framerate = 0, iscalibrated = False,
      iscalibrating = False\<rparr>"

definition Screen_zero :: Screen where
  "Screen_zero =
     \<lparr>screenindex = 0, screenresw = 0, screenresh = 0, screenpsyw = 0, screenpsyh = 0\<rparr>"

definition GazeData_zero :: GazeData where
  "GazeData_zero =
     \<lparr>gd_time = 0, gd_state = 0, gd_fix = False, gd_raw = (0, 0), gd_avg = (0, 0)\<rparr>"

definition CalibResult_clear :: "CalibResult \<Rightarrow> CalibResult" where
  "CalibResult_clear c = c\<lparr>result := False, calibpoints := []\<rparr>"

subsection \<open>Engine::Message (lines 349-395)\<close>

record Message =
  m_category :: GazeApiCategory
  m_request :: GazeApiRequest
  m_statuscode :: GazeApiStatusCode
  m_id :: int
  m_description :: string

text \<open>The constructor, which is \<^verbatim>\<open>reset()\<close>.\<close>

definition Message_reset :: Message where
  "Message_reset =
     \<lparr>m_category = GAC_UNKNOWN, m_request = GAR_UNKNOWN, m_statuscode = GASC_ERROR,
      m_id = - 1, m_description = ''''\<rparr>"

text \<open>The three overloads of \<^verbatim>\<open>is\<close>.\<close>

definition is_category :: "Message \<Rightarrow> GazeApiCategory \<Rightarrow> bool" where
  "is_category m category = (m_category m = category)"

definition is_request :: "Message \<Rightarrow> GazeApiRequest \<Rightarrow> bool" where
  "is_request m request = (m_request m = request)"

definition is_statuscode :: "Message \<Rightarrow> GazeApiStatusCode \<Rightarrow> bool" where
  "is_statuscode m statuscode = (m_statuscode m = statuscode)"

definition is_notification :: "Message \<Rightarrow> bool" where
  "is_notification m =
     (is_statuscode m GASC_CALIBRATION_CHANGE \<or> is_statuscode m GASC_DISPLAY_CHANGE
      \<or> is_statuscode m GASC_TRACKER_STATE_CHANGE)"

definition has_id :: "Message \<Rightarrow> bool" where
  "has_id m = (m_id m \<ge> 0)"

subsection \<open>What the collaborators contribute\<close>

text \<open>
  A decoded incoming message, as the outcome of each \<^verbatim>\<open>Parser\<close> call the engine makes on
  its property tree. \<open>None\<close> is the call returning \<^verbatim>\<open>false\<close>, which leaves the out
  parameter as it was. \<^verbatim>\<open>parse_server_state\<close> updates the server state and the screen it
  is given and may produce a gaze sample and a calibration result; \<^verbatim>\<open>parse_calib_result\<close>
  may produce a calibration result.
\<close>

record Wire =
  p_id :: int
  p_description :: string
  p_category :: "GazeApiCategory option"
  p_statuscode :: "GazeApiStatusCode option"
  p_request :: "GazeApiRequest option"
  p_server_state ::
    "ServerState \<Rightarrow> Screen \<Rightarrow>
       (ServerState \<times> GazeData option \<times> CalibResult option \<times> Screen) option"
  p_calib_result :: "CalibResult option option"

text \<open>
  The socket maps a request text to the id the reply will carry, or to \<open>-1\<close>.
\<close>

record Socket =
  get_id :: "string \<Rightarrow> int"

text \<open>
  What the socket's receive context does while a caller is blocked: it hands over a
  message (\<open>None\<close> when \<^verbatim>\<open>read_json\<close> throws on its text), or reports that the connection
  is lost. Handling a message can itself block in a follow-up request; \<open>during\<close> is what
  is delivered meanwhile.
\<close>

datatype delivery =
  Received "Wire option" (during: "delivery list")
  | Lost

subsection \<open>The engine's members (lines 656-691) and its calls to the outside\<close>

datatype ApiState = AS_STOPPED | AS_RUNNING | AS_ISCALIBRATING

definition VERSION :: int where "VERSION = 2"

definition SR_ERROR :: int where "SR_ERROR = 1"
definition SR_GET_TRACKER_STATE :: int where "SR_GET_TRACKER_STATE = 2"
definition SR_GET_FRAME :: int where "SR_GET_FRAME = 4"
definition SR_GET_CALIB_RESULT :: int where "SR_GET_CALIB_RESULT = 8"
definition SR_GET_CHANGES :: int where "SR_GET_CHANGES = 16"
definition SR_SET_VERSION :: int where "SR_SET_VERSION = 32"
definition SR_SET_SCREEN :: int where "SR_SET_SCREEN = 128"
definition SR_CALIB_START :: int where "SR_CALIB_START = 256"
definition SR_CALIB_POINT_START :: int where "SR_CALIB_POINT_START = 512"

text \<open>
  The five \<^verbatim>\<open>Observable\<close> bases are the vectors of registered listeners, each listener a
  number. \<open>m_sync_lock\<close> says whether the mutex of that name is held. The three other
  mutexes are held over one assignment each, during which nothing else is called; they are
  left out.
\<close>

record Engine =
  m_socket :: Socket
  m_state :: ApiState
  m_calibration_proxy :: CalibrationProxy
  m_port :: string
  m_host :: string
  m_server_proxy :: ServerState
  m_gaze_data :: GazeData
  m_calib_result :: CalibResult
  m_screen :: Screen
  m_sync_requests :: "int \<rightharpoonup> Message"
  m_sync_lock :: bool
  gaze_listeners :: "nat list"
  calibration_result_listeners :: "nat list"
  tracker_state_listeners :: "nat list"
  calibration_process_handlers :: "nat list"
  connection_state_listeners :: "nat list"

text \<open>
  \<open>WaitSyncLock\<close> is no call to the outside: it records that the thread running
  \<^verbatim>\<open>send_sync\<close> found \<^verbatim>\<open>m_sync_lock\<close> held and waits for it, the request not sent.
\<close>

datatype event =
  SocketConnect string string
  | SocketDisconnect
  | SocketSend string
  | SocketSendSync string
  | WaitSyncLock string
  | OnGazeData nat GazeData
  | OnCalibrationChanged nat bool CalibResult
  | OnScreenStateChanged nat Screen
  | OnTrackerConnectionChanged nat int
  | OnCalibrationStarted nat
  | OnCalibrationProgress nat cdouble
  | OnCalibrationResult nat bool CalibResult
  | OnConnectionStateChanged nat bool

definition blocked_on_lock :: "event list \<Rightarrow> bool" where
  "blocked_on_lock evs = (case evs of WaitSyncLock _ # _ \<Rightarrow> True | _ \<Rightarrow> False)"

text \<open>The constructor (lines 113-118): stopped, nobody registered, the lock free.\<close>

definition Engine_init :: "Socket \<Rightarrow> Engine" where
  "Engine_init sock =
     \<lparr>m_socket = sock, m_state = AS_STOPPED, m_calibration_proxy = CalibrationProxy_init,
      m_port = '''', m_host = '''', m_server_proxy = ServerState_zero,
      m_gaze_data = GazeData_zero,
      m_calib_result = \<lparr>result = False, calibpoints = []\<rparr>,
      m_screen = Screen_zero, m_sync_requests = Map.empty, m_sync_lock = False,
      gaze_listeners = [], calibration_result_listeners = [],
      tracker_state_listeners = [], calibration_process_handlers = [],
      connection_state_listeners = []\<rparr>"

definition is_running :: "Engine \<Rightarrow> bool" where
  "is_running st = (m_state st = AS_RUNNING)"

text \<open>\<^verbatim>\<open>m_sync_requests[k]\<close>: \<^verbatim>\<open>std::map::operator[]\<close> inserts a fresh message when absent.\<close>

definition sync_request :: "int \<Rightarrow> Engine \<Rightarrow> Message \<times> Engine" where
  "sync_request k st =
     (case m_sync_requests st k of
        Some m \<Rightarrow> (m, st)
      | None \<Rightarrow> (Message_reset, st\<lparr>m_sync_requests := (m_sync_requests st)(k \<mapsto> Message_reset)\<rparr>))"

subsection \<open>disconnect, send_sync, send_async (lines 190-197, 399-418)\<close>

definition disconnect :: "Engine \<Rightarrow> Engine \<times> event list" where
  "disconnect st =
     (if m_state st \<noteq> AS_STOPPED then (st\<lparr>m_state := AS_STOPPED\<rparr>, [SocketDisconnect])
      else (st, []))"

text \<open>
  \<open>meanwhile\<close> is what the receive context does between the socket's \<^verbatim>\<open>send_sync\<close> being
  called and its return; the lock is held all that time (lines 404-408). The mutex is not
  recursive: a \<^verbatim>\<open>send_sync\<close> that finds it held, which is one started by the receive
  context while another one is blocked, waits in \<^verbatim>\<open>lock()\<close> and has sent nothing. The wait
  is recorded and the waiting thread does nothing more in this stretch of time; what it
  does when the lock is free again belongs to a later delivery. Whether the socket's
  \<^verbatim>\<open>send_sync\<close> returns at all is the socket's affair: the model says what holds when it
  does.
\<close>

definition send_sync ::
  "(Engine \<Rightarrow> Engine \<times> event list) \<Rightarrow> string \<Rightarrow> Engine \<Rightarrow> Engine \<times> event list" where
  "send_sync meanwhile message st =
     (let rid = get_id (m_socket st) message in
      if m_state st \<noteq> AS_STOPPED \<and> rid \<noteq> - 1 then
        (if m_sync_lock st then (st, [WaitSyncLock message])
         else
           (let st1 = st\<lparr>m_sync_lock := True,
                        m_sync_requests := (m_sync_requests st)(rid \<mapsto> Message_reset)\<rparr>;
                (st2, evs) = meanwhile st1
            in (st2\<lparr>m_sync_lock := False\<rparr>, SocketSendSync message # evs)))
      else (st, []))"

definition send_async :: "string \<Rightarrow> Engine \<Rightarrow> Engine \<times> event list" where
  "send_async message st =
     (if m_state st \<noteq> AS_STOPPED then (st, [SocketSend message]) else (st, []))"

subsection \<open>Message dispatch: parse (lines 420-654)\<close>

text \<open>The values a notification asks for (the \<^verbatim>\<open>switch\<close> of lines 455-476).\<close>

definition changed_values :: "GazeApiStatusCode \<Rightarrow> string" where
  \<open>changed_values statuscode =
     (case statuscode of
        GASC_CALIBRATION_CHANGE \<Rightarrow> ''"calibresult","iscalibrated","iscalibrating"''
      | GASC_DISPLAY_CHANGE \<Rightarrow>
          ''"screenindex","screenresw","screenresh","screenpsyw","screenpsyh"''
      | GASC_TRACKER_STATE_CHANGE \<Rightarrow> ''"trackerstate"''
      | _ \<Rightarrow> '''')\<close>

definition changes_request :: "string \<Rightarrow> string" where
  \<open>changes_request values =
     ''{"id":'' @ show_int SR_GET_CHANGES
       @ '',"category":"tracker","request":"get","values":['' @ values @ '']}''\<close>

text \<open>A tracker/get reply (lines 498-573).\<close>

definition tracker_get_reply :: "Wire \<Rightarrow> Engine \<Rightarrow> Engine \<times> event list" where
  "tracker_get_reply tree st =
     (case p_server_state tree (m_server_proxy st) (m_screen st) of
        None \<Rightarrow> (st, [])
      | Some (server_state, gaze, calib, screen) \<Rightarrow>
          (let has_state_changed = (trackerstate server_state \<noteq> trackerstate (m_server_proxy st));
               st1 = st\<lparr>m_server_proxy := server_state\<rparr>;
               (st2, ev_gaze) =
                 (case gaze of
                    None \<Rightarrow> (st1, [])
                  | Some gaze_data \<Rightarrow>
                      (let s = st1\<lparr>m_gaze_data := gaze_data\<rparr>
                       in (s, map (\<lambda>l. OnGazeData l (m_gaze_data s)) (gaze_listeners s))));
               (st3, ev_calib) =
                 (case calib of
                    None \<Rightarrow> (st2, [])
                  | Some calib_result \<Rightarrow>
                      (let s = st2\<lparr>m_calib_result := calib_result\<rparr>
                       in (s, map (\<lambda>l. OnCalibrationChanged l (result (m_calib_result s))
                                          (m_calib_result s))
                                 (calibration_result_listeners s))));
               (st4, ev_screen) =
                 (if screen \<noteq> m_screen st3 then
                    (let s = st3\<lparr>m_screen := screen\<rparr>
                     in (s, map (\<lambda>l. OnScreenStateChanged l (m_screen s))
                               (tracker_state_listeners s)))
                  else (st3, []));
               ev_state =
                 (if has_state_changed then
                    map (\<lambda>l. OnTrackerConnectionChanged l (trackerstate (m_server_proxy st4)))
                        (tracker_state_listeners st4)
                  else [])
           in (st4, ev_gaze @ ev_calib @ ev_screen @ ev_state)))"

text \<open>A calibration/pointend reply (lines 591-639).\<close>

definition point_end_reply :: "Wire \<Rightarrow> Engine \<Rightarrow> Engine \<times> event list" where
  "point_end_reply tree st =
     (let st1 = st\<lparr>m_calibration_proxy := point_end (m_calibration_proxy st)\<rparr>;
          progress = get_progress (m_calibration_proxy st1);
          ev_progress =
            map (\<lambda>l. OnCalibrationProgress l progress) (calibration_process_handlers st1)
      in case p_calib_result tree of
           None \<Rightarrow> (st1, ev_progress)
         | Some None \<Rightarrow> (st1, ev_progress)
         | Some (Some calib_result) \<Rightarrow>
             (let (st2, ev_changed) =
                    (if result calib_result then
                       (let s = st1\<lparr>m_calib_result := calib_result\<rparr>
                        in (s\<lparr>m_calibration_proxy :=
                                 CalibrationProxy_clear (m_calibration_proxy s)\<rparr>,
                            map (\<lambda>l. OnCalibrationChanged l (result (m_calib_result s))
                                       (m_calib_result s))
                                (calibration_result_listeners s)))
                     else (st1, []))
              in (st2, ev_progress @ ev_changed
                        @ map (\<lambda>l. OnCalibrationResult l (result calib_result) calib_result)
                              (calibration_process_handlers st2))))"

text \<open>
  A calibration reply (lines 578-653). The four tests follow one another in the source;
  the early return inside the point-end branch skips only tests that are false there.
\<close>

definition calibration_reply :: "Message \<Rightarrow> Wire \<Rightarrow> Engine \<Rightarrow> Engine \<times> event list" where
  "calibration_reply reply tree st =
     (let ev_started =
            (if is_request reply GAR_START then
               map OnCalibrationStarted (calibration_process_handlers st)
             else []);
          (st1, ev_point) =
            (if is_request reply GAR_POINTEND then point_end_reply tree st else (st, []));
          st2 =
            (if is_request reply GAR_ABORT then
               st1\<lparr>m_calibration_proxy := CalibrationProxy_clear (m_calibration_proxy st1)\<rparr>
             else st1);
          st3 =
            (if is_request reply GAR_CLEAR then
               st2\<lparr>m_calib_result := CalibResult_clear (m_calib_result st2)\<rparr>
             else st2)
      in (st3, ev_started @ ev_point))"

text \<open>
  \<^verbatim>\<open>parse\<close> returns the message it has filled in, the engine and the calls made.
  \<open>p_id\<close> is \<^verbatim>\<open>m_id\<close> after \<^verbatim>\<open>parse_id\<close> (\<open>-1\<close> when the message has none).
\<close>

definition parse ::
  "(Engine \<Rightarrow> Engine \<times> event list) \<Rightarrow> Wire \<Rightarrow> Engine \<Rightarrow> Message \<times> Engine \<times> event list" where
  "parse meanwhile tree st =
     (let reply = Message_reset\<lparr>m_id := p_id tree, m_description := p_description tree\<rparr> in
      case p_category tree of
        None \<Rightarrow> (reply, st, [])
      | Some category \<Rightarrow>
          (let reply = reply\<lparr>m_category := category\<rparr> in
           case p_statuscode tree of
             None \<Rightarrow> (reply, st, [])
           | Some statuscode \<Rightarrow>
               (let reply = reply\<lparr>m_statuscode := statuscode\<rparr> in
                if is_statuscode reply GASC_ERROR \<and> \<not> is_notification reply then
                  (reply, st, [])
                else if is_notification reply then
                  (let (st1, evs) =
                         send_sync meanwhile
                           (changes_request (changed_values (m_statuscode reply))) st
                   in (reply, st1, evs))
                else
                  (case p_request tree of
                     None \<Rightarrow> (reply, st, [])
                   | Some request \<Rightarrow>
                       (let reply = reply\<lparr>m_request := request\<rparr> in
                        if is_category reply GAC_TRACKER then
                          (if is_request reply GAR_SET then (reply, st, [])
                           else if is_request reply GAR_GET then
                             (let (st1, evs) = tracker_get_reply tree st
                              in (reply, st1, evs))
                           else (reply, st, []))
                        else if is_category reply GAC_CALIBRATION then
                          (let (st1, evs) = calibration_reply reply tree st
                           in (reply, st1, evs))
                        else (reply, st, []))))))"

subsection \<open>The socket's callbacks (lines 318-345)\<close>

text \<open>
  An exception (\<^verbatim>\<open>read_json\<close> on a broken text) is caught and nothing is stored. While
  \<^verbatim>\<open>parse\<close> waits for the lock, line 326 is not reached.
\<close>

definition on_message ::
  "(Engine \<Rightarrow> Engine \<times> event list) \<Rightarrow> Wire option \<Rightarrow> Engine \<Rightarrow> Engine \<times> event list" where
  "on_message meanwhile message st =
     (case message of
        None \<Rightarrow> (st, [])
      | Some tree \<Rightarrow>
          (let (msg, st1, evs) = parse meanwhile tree st in
           if blocked_on_lock evs then (st1, evs)
           else if has_id msg then
             (st1\<lparr>m_sync_requests := (m_sync_requests st1)(m_id msg \<mapsto> msg)\<rparr>, evs)
           else (st1, evs)))"

definition on_disconnected :: "Engine \<Rightarrow> Engine \<times> event list" where
  "on_disconnected st =
     (let (st1, evs) = disconnect st
      in (st1, evs @ map (\<lambda>l. OnConnectionStateChanged l False)
                         (connection_state_listeners st1)))"

text \<open>
  The receive context working through what arrives, one after the other. It is one
  thread: when a handler waits for the lock, what is left of the list is not delivered.
\<close>

fun deliver :: "delivery \<Rightarrow> Engine \<Rightarrow> Engine \<times> event list"
  and deliver_all :: "delivery list \<Rightarrow> Engine \<Rightarrow> Engine \<times> event list" where
  "deliver (Received message ds) st = on_message (\<lambda>s. deliver_all ds s) message st"
| "deliver Lost st = on_disconnected st"
| "deliver_all [] st = (st, [])"
| "deliver_all (d # ds) st =
     (let (st1, ev1) = deliver d st in
      if blocked_on_lock ev1 then (st1, ev1)
      else (let (st2, ev2) = deliver_all ds st1 in (st2, ev1 @ ev2)))"

subsection \<open>The public operations (lines 132-316)\<close>

text \<open>
  An operation that blocks takes what the receive context delivers meanwhile. The
  version query waits in steps of a millisecond, at most 5000 of them; \<open>ticks\<close> is what
  is delivered during each step. There is one calling thread, so an operation starts
  with \<^verbatim>\<open>m_sync_lock\<close> free; the lock is found held only by the receive context, inside
  such a stretch.
\<close>

definition version_query :: string where
  \<open>version_query = ''{"category":"tracker","request":"get","values":["version"]}''\<close>

fun wait_for_version :: "nat \<Rightarrow> delivery list list \<Rightarrow> Engine \<Rightarrow> Engine \<times> event list" where
  "wait_for_version wait ticks st =
     (if version (m_server_proxy st) = 0 \<and> wait > 0 then
        (let (st1, ev1) = deliver_all (case ticks of [] \<Rightarrow> [] | t # _ \<Rightarrow> t) st;
             (st2, ev2) = wait_for_version (wait - 1) (tl ticks) st1
         in (st2, ev1 @ ev2))
      else (st, []))"

declare wait_for_version.simps [simp del]

definition get_default_version ::
  "delivery list list \<Rightarrow> Engine \<Rightarrow> int \<times> Engine \<times> event list" where
  "get_default_version ticks st =
     (let version0 = version (m_server_proxy st);
          st1 = st\<lparr>m_server_proxy := (m_server_proxy st)\<lparr>version := 0\<rparr>\<rparr>;
          (st2, ev1) = send_async version_query st1;
          (st3, ev2) = wait_for_version 5000 ticks st2
      in (version (m_server_proxy st3),
          st3\<lparr>m_server_proxy := (m_server_proxy st3)\<lparr>version := version0\<rparr>\<rparr>,
          ev1 @ ev2))"

definition set_version_request :: "size_t \<Rightarrow> string" where
  \<open>set_version_request version_no =
     ''{"id":'' @ show_int SR_SET_VERSION
       @ '',"category":"tracker","request":"set","values":'' @ ''{"version":''
       @ show_nat (unat version_no) @ ''}}''\<close>

definition set_version :: "size_t \<Rightarrow> delivery list \<Rightarrow> Engine \<Rightarrow> bool \<times> Engine \<times> event list" where
  "set_version version_no ds st =
     (let (st1, evs) = send_sync (deliver_all ds) (set_version_request version_no) st;
          (m, st2) = sync_request SR_SET_VERSION st1
      in (is_statuscode m GASC_OK, st2, evs))"

text \<open>\<open>show_float\<close> is the stream insertion of a \<^verbatim>\<open>float\<close>, a parameter.\<close>

definition set_screen_request :: "(real \<Rightarrow> string) \<Rightarrow> Screen \<Rightarrow> string" where
  \<open>set_screen_request show_float screen =
     ''{"id":'' @ show_int SR_SET_SCREEN
       @ '',"category":"tracker","request":"set","values":'' @ ''{"screenindex":''
       @ show_int (screenindex screen) @ '',"screenresw":'' @ show_int (screenresw screen)
       @ '',"screenresh":'' @ show_int (screenresh screen)
       @ '',"screenpsyw":'' @ show_float (screenpsyw screen)
       @ '',"screenpsyh":'' @ show_float (screenpsyh screen) @ ''}}''\<close>

definition set_screen ::
  "(real \<Rightarrow> string) \<Rightarrow> Screen \<Rightarrow> delivery list \<Rightarrow> Engine \<Rightarrow> bool \<times> Engine \<times> event list" where
  "set_screen show_float screen ds st =
     (let (st1, evs) = send_sync (deliver_all ds) (set_screen_request show_float screen) st;
          (m, st2) = sync_request SR_SET_SCREEN st1
      in (is_statuscode m GASC_OK, st2, evs))"

definition get_tracker_state_request :: string where
  \<open>get_tracker_state_request =
     ''{"id":'' @ show_int SR_GET_TRACKER_STATE @ '',''
       @ ''"category":"tracker","request":"get","values":[''
       @ ''"version",'' @ ''"trackerstate",'' @ ''"framerate",'' @ ''"iscalibrated",''
       @ ''"iscalibrating",'' @ ''"calibresult",'' @ ''"frame",'' @ ''"screenindex",''
       @ ''"screenresw",'' @ ''"screenresh",'' @ ''"screenpsyw",'' @ ''"screenpsyh"''
       @ '']}''\<close>

definition get_tracker_state :: "delivery list \<Rightarrow> Engine \<Rightarrow> Engine \<times> event list" where
  "get_tracker_state ds st = send_sync (deliver_all ds) get_tracker_state_request st"

definition calibration_start_request :: "int \<Rightarrow> string" where
  \<open>calibration_start_request point_count =
     ''{"id":'' @ show_int SR_CALIB_START
       @ '',"category":"calibration","request":"start","values":{"pointcount":''
       @ show_int point_count @ ''}}''\<close>

text \<open>The \<^verbatim>\<open>int\<close> becomes a \<^verbatim>\<open>size_t\<close> on the way into the proxy.\<close>

definition calibration_start :: "int \<Rightarrow> delivery list \<Rightarrow> Engine \<Rightarrow> bool \<times> Engine \<times> event list" where
  "calibration_start point_count ds st =
     (let st0 = st\<lparr>m_calibration_proxy :=
                     start_calibration (word_of_int point_count) (m_calibration_proxy st)\<rparr>;
          (st1, evs) = send_sync (deliver_all ds) (calibration_start_request point_count) st0;
          (m, st2) = sync_request SR_CALIB_START st1
      in (is_statuscode m GASC_OK, st2, evs))"

definition calibration_clear :: "Engine \<Rightarrow> Engine \<times> event list" where
  \<open>calibration_clear st = send_async ''{"category":"calibration","request":"clear"}'' st\<close>

definition calibration_abort :: "Engine \<Rightarrow> Engine \<times> event list" where
  \<open>calibration_abort st = send_async ''{"category":"calibration","request":"abort"}'' st\<close>

definition calibration_point_start_request :: "int \<Rightarrow> int \<Rightarrow> string" where
  \<open>calibration_point_start_request x y =
     ''{"id":'' @ show_int SR_CALIB_POINT_START
       @ '',"category":"calibration","request":"pointstart","values":{"x":''
       @ show_int x @ '',"y":'' @ show_int y @ ''}}''\<close>

definition calibration_point_start ::
  "int \<Rightarrow> int \<Rightarrow> delivery list \<Rightarrow> Engine \<Rightarrow> bool \<times> Engine \<times> event list" where
  "calibration_point_start x y ds st =
     (let (st1, evs) = send_sync (deliver_all ds) (calibration_point_start_request x y) st;
          (m, st2) = sync_request SR_CALIB_POINT_START st1
      in (is_statuscode m GASC_OK, st2, evs))"

definition calibration_point_end :: "Engine \<Rightarrow> Engine \<times> event list" where
  \<open>calibration_point_end st = send_async ''{"category":"calibration","request":"pointend"}'' st\<close>

subsection \<open>connect (lines 132-184)\<close>

text \<open>
  What the other side does during one call of \<^verbatim>\<open>connect\<close>: whether the socket connects,
  and what is delivered while the version is awaited, while \<^verbatim>\<open>set_version\<close> blocks and
  while \<^verbatim>\<open>get_tracker_state\<close> blocks.
\<close>

record Handshake =
  socket_connects :: bool
  version_ticks :: "delivery list list"
  set_version_deliveries :: "delivery list"
  tracker_state_deliveries :: "delivery list"

text \<open>The engine right after the socket has connected (lines 138-151).\<close>

definition freshly_connected :: "string \<Rightarrow> string \<Rightarrow> Engine \<Rightarrow> Engine" where
  "freshly_connected host port st =
     st\<lparr>m_host := host, m_port := port, m_sync_requests := Map.empty,
        m_state := AS_RUNNING, m_server_proxy := ServerState_zero,
        m_gaze_data := GazeData_zero, m_screen := Screen_zero,
        m_calib_result := CalibResult_clear (m_calib_result st)\<rparr>"

definition connect ::
  "string \<Rightarrow> string \<Rightarrow> Handshake \<Rightarrow> Engine \<Rightarrow> bool \<times> Engine \<times> event list" where
  "connect host port peer st =
     (if AS_STOPPED \<noteq> m_state st then (False, st, [])
      else
        (let success = socket_connects peer;
             ev0 = [SocketConnect host port]
         in if success then
              (let st1 = freshly_connected host port st;
                   (v, st2, ev1) = get_default_version (version_ticks peer) st1
               in if v < VERSION then
                    (let (st3, ev2) = disconnect st2 in (False, st3, ev0 @ ev1 @ ev2))
                  else
                    (let (ok, st3, ev2) =
                           set_version (word_of_int VERSION) (set_version_deliveries peer) st2
                     in if \<not> ok then
                          (let (st4, ev3) = disconnect st3
                           in (False, st4, ev0 @ ev1 @ ev2 @ ev3))
                        else
                          (let ev3 = map (\<lambda>l. OnConnectionStateChanged l True)
                                         (connection_state_listeners st3);
                               (st4, ev4) =
                                 get_tracker_state (tracker_state_deliveries peer) st3
                           in (success, st4, ev0 @ ev1 @ ev2 @ ev3 @ ev4))))
            else
              (success,
               st\<lparr>m_host := host, m_port := port, m_sync_requests := Map.empty\<rparr>, ev0)))"

text \<open>The accessors (lines 231-284).\<close>

definition get_screen :: "Engine \<Rightarrow> Screen" where
  "get_screen st = m_screen st"

definition get_frame :: "Engine \<Rightarrow> GazeData" where
  "get_frame st = m_gaze_data st"

definition get_calib_result :: "Engine \<Rightarrow> CalibResult" where
  "get_calib_result st = m_calib_result st"

definition get_server_state :: "Engine \<Rightarrow> ServerState" where
  "get_server_state st = m_server_proxy st"

definition update_server_state :: "delivery list \<Rightarrow> Engine \<Rightarrow> ServerState \<times> Engine \<times> event list" where
  "update_server_state ds st =
     (let (st1, evs) = get_tracker_state ds st in (m_server_proxy st1, st1, evs))"

subsection \<open>Reading the list of calls\<close>

definition is_screen_change :: "event \<Rightarrow> bool" where
  "is_screen_change e = (case e of OnScreenStateChanged _ _ \<Rightarrow> True | _ \<Rightarrow> False)"

definition is_tracker_connection_change :: "event \<Rightarrow> bool" where
  "is_tracker_connection_change e =
     (case e of OnTrackerConnectionChanged _ _ \<Rightarrow> True | _ \<Rightarrow> False)"

definition published_progress :: "event list \<Rightarrow> cdouble list" where
  "published_progress evs =
     concat (map (\<lambda>e. case e of OnCalibrationProgress _ progress \<Rightarrow> [progress] | _ \<Rightarrow> []) evs)"


subsection \<open>A socket, an engine and messages for the worked examples\<close>

text \<open>
  A socket that takes the id from the text of the request: the number after \<^verbatim>\<open>{"id":\<close>,
  and \<open>-1\<close> for a text that starts otherwise.
\<close>

definition read_nat :: "string \<Rightarrow> nat" where
  "read_nat ds = foldl (\<lambda>n c. 10 * n + (of_char c - 48)) 0 ds"

definition json_id :: "string \<Rightarrow> int" where
  \<open>json_id message =
     (if take 6 message = ''{"id":''
      then int (read_nat (takeWhile (\<lambda>c. c \<in> set ''0123456789'') (drop 6 message)))
      else - 1)\<close>

definition json_socket :: Socket where
  "json_socket = \<lparr>get_id = json_id\<rparr>"

text \<open>A connected engine with listeners of every kind, two of them for the tracker state.\<close>

definition running_engine :: Engine where
  "running_engine =
     (Engine_init json_socket)
       \<lparr>m_state := AS_RUNNING, gaze_listeners := [1], calibration_result_listeners := [2],
        tracker_state_listeners := [3, 4], calibration_process_handlers := [5],
        connection_state_listeners := [6]\<rparr>"

text \<open>The same engine with another tracker state in its snapshot.\<close>

definition engine_with_tracker_state :: "int \<Rightarrow> Engine" where
  "engine_with_tracker_state ts =
     running_engine\<lparr>m_server_proxy := (m_server_proxy running_engine)\<lparr>trackerstate := ts\<rparr>\<rparr>"


definition nothing_meanwhile :: "Engine \<Rightarrow> Engine \<times> event list" where
  "nothing_meanwhile st = (st, [])"

definition no_payload ::
  "ServerState \<Rightarrow> Screen \<Rightarrow>
     (ServerState \<times> GazeData option \<times> CalibResult option \<times> Screen) option" where
  "no_payload server_state screen = None"

definition acknowledgement :: "int \<Rightarrow> GazeApiCategory \<Rightarrow> GazeApiRequest \<Rightarrow> Wire" where
  "acknowledgement rid category request =
     \<lparr>p_id = rid, p_description = '''', p_category = Some category,
      p_statuscode = Some GASC_OK, p_request = Some request,
      p_server_state = no_payload, p_calib_result = Some None\<rparr>"

definition error_reply :: Wire where
  "error_reply =
     (acknowledgement 256 GAC_CALIBRATION GAR_START)\<lparr>p_statuscode := Some GASC_ERROR\<rparr>"

definition point_end_message :: "CalibResult option \<Rightarrow> Wire" where
  "point_end_message calib_result =
     (acknowledgement (- 1) GAC_CALIBRATION GAR_POINTEND)\<lparr>p_calib_result := Some calib_result\<rparr>"

definition failed_result :: CalibResult where
  "failed_result = \<lparr>result = False, calibpoints = [3, 4]\<rparr>"


text \<open>A tracker/get reply whose values change the server state by \<open>f\<close>, the screen by \<open>g\<close>.\<close>

definition tracker_values :: "(ServerState \<Rightarrow> ServerState) \<Rightarrow> (Screen \<Rightarrow> Screen) \<Rightarrow> Wire" where
  "tracker_values f g =
     (acknowledgement (- 1) GAC_TRACKER GAR_GET)
       \<lparr>p_server_state := (\<lambda>server_state screen. Some (f server_state, None, None, g screen))\<rparr>"

definition wide_screen :: Screen where
  "wide_screen =
     \<lparr>screenindex = 1, screenresw = 1920, screenresh = 1080, screenpsyw = 1 / 2,
      screenpsyh = 3 / 10\<rparr>"

text \<open>A server that answers the version query with version 1 during the first wait.\<close>

definition old_server :: Handshake where
  "old_server =
     \<lparr>socket_connects = True,
      version_ticks =
        [[Received (Some (tracker_values (\<lambda>s. s\<lparr>version := 1\<rparr>) (\<lambda>s. s))) []]],
      set_version_deliveries = [], tracker_state_deliveries = []\<rparr>"

text \<open>
  A server that answers with version 2, acknowledges \<^verbatim>\<open>set_version\<close> and answers the
  first full query with a connected tracker's state.
\<close>

definition current_server :: Handshake where
  "current_server =
     \<lparr>socket_connects = True,
      version_ticks =
        [[Received (Some (tracker_values (\<lambda>s. s\<lparr>version := 2\<rparr>) (\<lambda>s. s))) []]],
      set_version_deliveries = [Received (Some (acknowledgement 32 GAC_TRACKER GAR_SET)) []],
      tracker_state_deliveries =
        [Received (Some ((tracker_values (\<lambda>s. s\<lparr>version := 2, framerate := 30\<rparr>)
                            (\<lambda>s. wide_screen))\<lparr>p_id := 2\<rparr>)) []]\<rparr>"

section \<open>Properties\<close>

subsection \<open>Evaluating the request texts\<close>

lemma show_int_SR [simp]:
  "show_int SR_GET_CHANGES = ''16''" "show_int SR_GET_TRACKER_STATE = ''2''"
  "show_int SR_SET_VERSION = ''32''" "show_int SR_CALIB_START = ''256''"
  "show_int SR_CALIB_POINT_START = ''512''" "show_int SR_SET_SCREEN = ''128''"
  by (simp_all add: show_int_def SR_GET_CHANGES_def SR_GET_TRACKER_STATE_def
      SR_SET_VERSION_def SR_CALIB_START_def SR_CALIB_POINT_START_def SR_SET_SCREEN_def
      show_nat.simps)

lemma json_id_calibration_start [simp]: "json_id (calibration_start_request n) = 256"
  by (simp add: json_id_def calibration_start_request_def read_nat_def)

lemma json_id_changes [simp]: "json_id (changes_request vs) = 16"
  by (simp add: json_id_def changes_request_def read_nat_def)

lemma json_id_set_version [simp]: "json_id (set_version_request v) = 32"
  by (simp add: json_id_def set_version_request_def read_nat_def)

lemma json_id_get_tracker_state [simp]: "json_id get_tracker_state_request = 2"
  by (simp add: json_id_def get_tracker_state_request_def read_nat_def)

lemma json_id_version_query [simp]: "json_id version_query = - 1"
  by (simp add: json_id_def version_query_def)

lemma changes_request_not_baseline: "changes_request vs \<noteq> get_tracker_state_request"
  by (simp add: changes_request_def get_tracker_state_request_def)


lemmas example_defs =
  running_engine_def Engine_init_def json_socket_def acknowledgement_def
  point_end_message_def failed_result_def no_payload_def CalibrationProxy_init_def
  nothing_meanwhile_def

lemmas dispatch_defs =
  on_message_def blocked_on_lock_def parse_def tracker_get_reply_def calibration_reply_def point_end_reply_def
  send_sync_def send_async_def sync_request_def disconnect_def on_disconnected_def
  is_statuscode_def is_notification_def is_category_def is_request_def has_id_def
  Message_reset_def Let_def

subsection \<open>The calibration progress tracker\<close>

lemma point_end_iter:
  "(point_end ^^ k) p = p\<lparr>m_processed_points := m_processed_points p + of_nat k\<rparr>"
  by (induction k) (simp_all add: point_end_def add.assoc)

lemma unat_of_nat_64: "n < 2 ^ 64 \<Longrightarrow> unat (of_nat n :: 64 word) = n"
  by (simp add: unat_of_nat)

text \<open>
  With \<open>N\<close> points to do and \<open>p0\<close> points counted so far, the progress after \<open>k\<close> more
  point-end events is \<open>(p0 + k) / N\<close>: it is \<open>k / N\<close> when the count starts at zero.
\<close>

lemma progress_after_points:
  assumes "m_point_count p = of_nat N" "0 < N" "N < 2 ^ 64"
    "m_processed_points p = of_nat p0" "p0 + k < 2 ^ 64"
  shows "get_progress ((point_end ^^ k) p) = Finite (real (p0 + k) / real N)"
proof -
  have n: "unat (of_nat N :: 64 word) = N"
    using assms(3) by (rule unat_of_nat_64)
  have q: "unat (of_nat p0 + of_nat k :: 64 word) = p0 + k"
    using unat_of_nat_64 [OF assms(5)] by simp
  have nz: "(of_nat N :: 64 word) \<noteq> 0"
    using n assms(2) by (metis unat_0 less_numeral_extra(3))
  show ?thesis
    using assms(2) nz
    by (simp add: point_end_iter get_progress_def double_of_size_t_def assms(1,4) n q
        del: of_nat_add)
qed

lemma start_calibration_keeps_count:
  "m_processed_points (start_calibration n p) = m_processed_points p"
  by (simp add: start_calibration_def)

text \<open>
  C1. The progress published after the k-th point-end event of a run of N points is to be
  k/N, the start of a run zeroing the count. \<^verbatim>\<open>start_calibration\<close> leaves the count as it
  is. Here a run of two points ends with a failed result, which does not clear the
  tracker; a second run of two points is started, and its first point-end event publishes
  3/2 where 1/2 is due. The first run publishes 1/2 and 1.
\<close>

theorem progress_after_restart:
  "(let (ok1, st1, ev1) =
          calibration_start 2 [Received (Some (acknowledgement 256 GAC_CALIBRATION GAR_START)) []]
            running_engine;
        (st2, ev2) =
          deliver_all [Received (Some (point_end_message None)) [],
                       Received (Some (point_end_message (Some failed_result))) []] st1;
        (ok3, st3, ev3) =
          calibration_start 2 [Received (Some (acknowledgement 256 GAC_CALIBRATION GAR_START)) []]
            st2;
        (st4, ev4) = deliver (Received (Some (point_end_message None)) []) st3
    in (published_progress ev2, published_progress ev4))
   = ([Finite (1 / 2), Finite 1], [Finite (3 / 2)])"
  by (simp add: calibration_start_def example_defs dispatch_defs SR_CALIB_START_def
      published_progress_def start_calibration_def point_end_def get_progress_def
      double_of_size_t_def)

text \<open>
  C6. With a total point count of 0, also after a run started with 0 points,
  \<^verbatim>\<open>get_progress\<close> is exactly 0; and in no state at all does it divide by zero.
\<close>

theorem get_progress_guarded:
  "(m_point_count p = 0 \<longrightarrow> get_progress p = Finite 0) \<and> get_progress p \<noteq> NotFinite"
  by (simp add: get_progress_def double_of_size_t_def unsigned_eq_0_iff)

theorem get_progress_guarded_witness:
  "m_point_count (point_end (start_calibration 0 CalibrationProxy_init)) = 0
   \<and> get_progress (point_end (start_calibration 0 CalibrationProxy_init)) = Finite 0"
  using get_progress_guarded [of "point_end (start_calibration 0 CalibrationProxy_init)"]
  by (simp add: point_end_def start_calibration_def CalibrationProxy_init_def)

subsection \<open>disconnect\<close>

lemma disconnect_stops: "m_state (fst (disconnect st)) = AS_STOPPED"
  by (simp add: disconnect_def)

lemma disconnect_no_send: "SocketSendSync m \<notin> set (snd (disconnect st))"
  by (simp add: disconnect_def)

text \<open>
  C9. \<^verbatim>\<open>disconnect\<close> is idempotent: an engine that is not stopped becomes stopped and the
  socket is told to disconnect; on a stopped engine nothing changes and nothing is done;
  so a second call right after a first changes nothing.
\<close>

theorem disconnect_idempotent:
  "(m_state st \<noteq> AS_STOPPED \<longrightarrow>
      disconnect st = (st\<lparr>m_state := AS_STOPPED\<rparr>, [SocketDisconnect]))
   \<and> (m_state st = AS_STOPPED \<longrightarrow> disconnect st = (st, []))
   \<and> disconnect (fst (disconnect st)) = (fst (disconnect st), [])"
  by (simp add: disconnect_def)

theorem disconnect_idempotent_witness:
  "m_state running_engine \<noteq> AS_STOPPED
   \<and> disconnect running_engine = (running_engine\<lparr>m_state := AS_STOPPED\<rparr>, [SocketDisconnect])
   \<and> m_state (fst (disconnect running_engine)) = AS_STOPPED
   \<and> disconnect (fst (disconnect running_engine)) = (fst (disconnect running_engine), [])"
  using disconnect_idempotent [of running_engine]
    disconnect_idempotent [of "fst (disconnect running_engine)"]
  by (simp add: running_engine_def)

subsection \<open>Operations on a stopped engine\<close>

lemma send_sync_unfold:
  "send_sync meanwhile m st =
     (if m_state st \<noteq> AS_STOPPED \<and> get_id (m_socket st) m \<noteq> - 1 then
        (if m_sync_lock st then (st, [WaitSyncLock m])
         else
           ((fst (meanwhile (st\<lparr>m_sync_lock := True, m_sync_requests :=
                (m_sync_requests st)(get_id (m_socket st) m \<mapsto> Message_reset)\<rparr>)))
              \<lparr>m_sync_lock := False\<rparr>,
            SocketSendSync m #
              snd (meanwhile (st\<lparr>m_sync_lock := True, m_sync_requests :=
                (m_sync_requests st)(get_id (m_socket st) m \<mapsto> Message_reset)\<rparr>))))
      else (st, []))"
  by (simp add: send_sync_def Let_def split: prod.splits)

text \<open>
  On a stopped engine no operation sends anything. A fire-and-forget operation leaves
  the engine as it is. A synchronous one answers with what the correlator holds for
  its kind of request: \<open>False\<close> when there is no entry, and the status of the entry
  otherwise, which is an entry of an earlier call.
\<close>

lemma stopped_fire_and_forget:
  assumes "m_state st = AS_STOPPED"
  shows "calibration_clear st = (st, [])" "calibration_abort st = (st, [])"
    "calibration_point_end st = (st, [])"
  using assms
  by (simp_all add: calibration_clear_def calibration_abort_def calibration_point_end_def
      send_async_def)

lemma stopped_synchronous_sends_nothing:
  assumes "m_state st = AS_STOPPED"
  shows "snd (snd (set_version v ds st)) = []"
    "snd (snd (set_screen show_float screen ds st)) = []"
    "snd (snd (calibration_start n ds st)) = []"
    "snd (snd (calibration_point_start x y ds st)) = []"
  using assms
  by (simp_all add: set_version_def set_screen_def calibration_start_def
      calibration_point_start_def send_sync_unfold case_prod_beta Let_def)

lemma stopped_synchronous_result:
  assumes "m_state st = AS_STOPPED"
  shows "fst (set_version v ds st) =
           (case m_sync_requests st SR_SET_VERSION of
              None \<Rightarrow> False | Some m \<Rightarrow> m_statuscode m = GASC_OK)"
    "fst (set_screen show_float screen ds st) =
           (case m_sync_requests st SR_SET_SCREEN of
              None \<Rightarrow> False | Some m \<Rightarrow> m_statuscode m = GASC_OK)"
    "fst (calibration_start n ds st) =
           (case m_sync_requests st SR_CALIB_START of
              None \<Rightarrow> False | Some m \<Rightarrow> m_statuscode m = GASC_OK)"
    "fst (calibration_point_start x y ds st) =
           (case m_sync_requests st SR_CALIB_POINT_START of
              None \<Rightarrow> False | Some m \<Rightarrow> m_statuscode m = GASC_OK)"
  using assms
  by (simp_all add: set_version_def set_screen_def calibration_start_def
      calibration_point_start_def send_sync_unfold case_prod_beta sync_request_def
      is_statuscode_def Message_reset_def Let_def split: option.splits)

text \<open>
  C10. A synchronous operation on a stopped engine is to send nothing and to return
  false. It sends nothing, but here \<^verbatim>\<open>calibration_start\<close> returns true: the call made
  while the engine was running was acknowledged, \<^verbatim>\<open>disconnect\<close> keeps the correlator, and
  the call on the stopped engine reads that acknowledgement.
\<close>

theorem stale_acknowledgement_when_stopped:
  "(let (ok1, st1, ev1) =
          calibration_start 9 [Received (Some (acknowledgement 256 GAC_CALIBRATION GAR_START)) []]
            running_engine;
        (st2, ev2) = disconnect st1;
        (ok3, st3, ev3) = calibration_start 9 [] st2
    in (ok1, m_state st2, ok3, ev3)) = (True, AS_STOPPED, True, [])"
  by (simp add: calibration_start_def example_defs dispatch_defs SR_CALIB_START_def)

subsection \<open>Dispatch of one message\<close>

lemma filter_map_none: "(\<And>x. \<not> P (f x)) \<Longrightarrow> filter P (map f xs) = []"
  by (induction xs) simp_all

lemma filter_map_all: "(\<And>x. P (f x)) \<Longrightarrow> filter P (map f xs) = map f xs"
  by (induction xs) simp_all

lemma parse_tracker_get:
  assumes "p_category tree = Some GAC_TRACKER" "p_statuscode tree = Some GASC_OK"
    "p_request tree = Some GAR_GET"
  shows "snd (parse meanwhile tree st) = tracker_get_reply tree st"
  using assms
  by (simp add: parse_def is_statuscode_def is_notification_def is_category_def
      is_request_def split: prod.splits)

lemma tracker_get_screen:
  assumes "p_server_state tree (m_server_proxy st) (m_screen st)
             = Some (server_state, gaze, calib, screen)"
  shows "m_screen (fst (tracker_get_reply tree st)) = screen"
    and "filter is_screen_change (snd (tracker_get_reply tree st)) =
          (if screen \<noteq> m_screen st
           then map (\<lambda>l. OnScreenStateChanged l screen) (tracker_state_listeners st)
           else [])"
  using assms
  by (auto simp add: tracker_get_reply_def is_screen_change_def filter_map_none
      filter_map_all Let_def split: option.splits)

lemma tracker_get_state:
  assumes "p_server_state tree (m_server_proxy st) (m_screen st)
             = Some (server_state, gaze, calib, screen)"
  shows "m_server_proxy (fst (tracker_get_reply tree st)) = server_state"
    and "filter is_tracker_connection_change (snd (tracker_get_reply tree st)) =
          (if trackerstate server_state \<noteq> trackerstate (m_server_proxy st)
           then map (\<lambda>l. OnTrackerConnectionChanged l (trackerstate server_state))
                    (tracker_state_listeners st)
           else [])"
  using assms
  by (auto simp add: tracker_get_reply_def is_tracker_connection_change_def filter_map_none
      filter_map_all Let_def split: option.splits)




text \<open>
  C4. A tracker/get reply whose parsed screen differs from the screen snapshot updates
  the snapshot and calls \<^verbatim>\<open>on_screen_state_changed\<close> with the new screen once on each
  tracker-state listener; a following tracker/get reply with the same screen calls none
  and leaves the snapshot.
\<close>

theorem screen_change_notified_once:
  assumes "p_category tree1 = Some GAC_TRACKER" "p_statuscode tree1 = Some GASC_OK"
    "p_request tree1 = Some GAR_GET"
    "p_server_state tree1 (m_server_proxy st) (m_screen st)
       = Some (server_state1, gaze1, calib1, screen)"
    "screen \<noteq> m_screen st"
    "parse meanwhile1 tree1 st = (reply1, st1, evs1)"
    "p_category tree2 = Some GAC_TRACKER" "p_statuscode tree2 = Some GASC_OK"
    "p_request tree2 = Some GAR_GET"
    "p_server_state tree2 (m_server_proxy st1) (m_screen st1)
       = Some (server_state2, gaze2, calib2, screen)"
    "parse meanwhile2 tree2 st1 = (reply2, st2, evs2)"
  shows "m_screen st1 = screen
    \<and> filter is_screen_change evs1
        = map (\<lambda>l. OnScreenStateChanged l screen) (tracker_state_listeners st)
    \<and> filter is_screen_change evs2 = []
    \<and> m_screen st2 = m_screen st1"
proof -
  have r1: "tracker_get_reply tree1 st = (st1, evs1)"
    using parse_tracker_get [OF assms(1-3), of meanwhile1 st] assms(6) by simp
  have r2: "tracker_get_reply tree2 st1 = (st2, evs2)"
    using parse_tracker_get [OF assms(7-9), of meanwhile2 st1] assms(11) by simp
  have s1: "m_screen st1 = screen"
    using tracker_get_screen(1) [OF assms(4)] r1 by simp
  have e1: "filter is_screen_change evs1
      = map (\<lambda>l. OnScreenStateChanged l screen) (tracker_state_listeners st)"
    using tracker_get_screen(2) [OF assms(4)] r1 assms(5) by simp
  have s2: "m_screen st2 = screen"
    using tracker_get_screen(1) [OF assms(10)] r2 by simp
  have e2: "filter is_screen_change evs2 = []"
    using tracker_get_screen(2) [OF assms(10)] r2 s1 by simp
  show ?thesis
    using s1 e1 s2 e2 by simp
qed

theorem screen_change_notified_once_witness:
  "wide_screen \<noteq> m_screen running_engine
   \<and> m_screen (fst (snd (parse nothing_meanwhile
        (tracker_values (\<lambda>s. s) (\<lambda>s. wide_screen)) running_engine)))
       = wide_screen
   \<and> filter is_screen_change
        (snd (snd (parse nothing_meanwhile
           (tracker_values (\<lambda>s. s) (\<lambda>s. wide_screen)) running_engine)))
       = [OnScreenStateChanged 3 wide_screen, OnScreenStateChanged 4 wide_screen]
   \<and> filter is_screen_change
        (snd (snd (parse nothing_meanwhile (tracker_values (\<lambda>s. s) (\<lambda>s. wide_screen))
           (fst (snd (parse nothing_meanwhile (tracker_values (\<lambda>s. s) (\<lambda>s. wide_screen))
              running_engine))))))
       = []"
proof -
  let ?tree = "tracker_values (\<lambda>s. s) (\<lambda>s. wide_screen)"
  obtain r1 st1 ev1 where p1: "parse nothing_meanwhile ?tree running_engine = (r1, st1, ev1)"
    by (cases "parse nothing_meanwhile ?tree running_engine")
  obtain r2 st2 ev2 where p2: "parse nothing_meanwhile ?tree st1 = (r2, st2, ev2)"
    by (cases "parse nothing_meanwhile ?tree st1")
  have d: "wide_screen \<noteq> m_screen running_engine"
    by (simp add: wide_screen_def running_engine_def Engine_init_def Screen_zero_def)
  have "m_screen st1 = wide_screen
    \<and> filter is_screen_change ev1
        = map (\<lambda>l. OnScreenStateChanged l wide_screen) (tracker_state_listeners running_engine)
    \<and> filter is_screen_change ev2 = []
    \<and> m_screen st2 = m_screen st1"
    by (rule screen_change_notified_once [OF _ _ _ _ d p1 _ _ _ _ p2])
      (simp_all add: tracker_values_def acknowledgement_def)
  then show ?thesis
    using d p1 p2 by (simp add: running_engine_def)
qed

text \<open>
  C5, as the code has it. A tracker/get reply whose parsed tracker state differs from the
  one in the server-state snapshot calls \<^verbatim>\<open>on_tracker_connection_changed\<close> once on each
  tracker-state listener. The call has one argument, the new state; the prior state is
  not passed. The snapshot holds the new state afterwards.
\<close>

theorem tracker_state_change_notified_once:
  assumes "p_category tree = Some GAC_TRACKER" "p_statuscode tree = Some GASC_OK"
    "p_request tree = Some GAR_GET"
    "p_server_state tree (m_server_proxy st) (m_screen st)
       = Some (server_state, gaze, calib, screen)"
    "trackerstate server_state \<noteq> trackerstate (m_server_proxy st)"
    "parse meanwhile tree st = (reply, st', evs)"
  shows "filter is_tracker_connection_change evs =
           map (\<lambda>l. OnTrackerConnectionChanged l (trackerstate server_state))
               (tracker_state_listeners st)
    \<and> trackerstate (m_server_proxy st') = trackerstate server_state"
proof -
  have r: "tracker_get_reply tree st = (st', evs)"
    using parse_tracker_get [OF assms(1-3), of meanwhile st] assms(6) by simp
  show ?thesis
    using tracker_get_state [OF assms(4)] r assms(5) by simp
qed

theorem tracker_state_change_notified_once_witness:
  "trackerstate (m_server_proxy running_engine) = 0
   \<and> filter is_tracker_connection_change
        (snd (snd (parse nothing_meanwhile
           (tracker_values (\<lambda>s. s\<lparr>trackerstate := 1\<rparr>) (\<lambda>s. s)) running_engine)))
       = [OnTrackerConnectionChanged 3 1, OnTrackerConnectionChanged 4 1]
   \<and> trackerstate (m_server_proxy (fst (snd (parse nothing_meanwhile
         (tracker_values (\<lambda>s. s\<lparr>trackerstate := 1\<rparr>) (\<lambda>s. s)) running_engine)))) = 1"
proof -
  let ?tree = "tracker_values (\<lambda>s. s\<lparr>trackerstate := 1\<rparr>) (\<lambda>s. s)"
  obtain r1 st1 ev1 where p1: "parse nothing_meanwhile ?tree running_engine = (r1, st1, ev1)"
    by (cases "parse nothing_meanwhile ?tree running_engine")
  have z: "trackerstate (m_server_proxy running_engine) = 0"
    by (simp add: running_engine_def Engine_init_def ServerState_zero_def)
  have "filter is_tracker_connection_change ev1 =
           map (\<lambda>l. OnTrackerConnectionChanged l
                  (trackerstate ((m_server_proxy running_engine)\<lparr>trackerstate := 1\<rparr>)))
               (tracker_state_listeners running_engine)
    \<and> trackerstate (m_server_proxy st1)
        = trackerstate ((m_server_proxy running_engine)\<lparr>trackerstate := 1\<rparr>)"
    by (rule tracker_state_change_notified_once [OF _ _ _ _ _ p1])
      (simp_all add: tracker_values_def acknowledgement_def z)
  then show ?thesis
    using z p1 by (simp add: running_engine_def)
qed

text \<open>
  C5, as stated, fails: the notification does not carry the old value. The same reply,
  with tracker state 1, reaches an engine whose snapshot has state 0 and one whose
  snapshot has state 2; the listeners get the same calls in both cases, and nothing in a
  call tells 0 from 2.
\<close>

theorem tracker_state_change_without_old_value:
  "trackerstate (m_server_proxy (engine_with_tracker_state 0)) = 0
   \<and> trackerstate (m_server_proxy (engine_with_tracker_state 2)) = 2
   \<and> snd (snd (parse nothing_meanwhile
                  (tracker_values (\<lambda>s. s\<lparr>trackerstate := 1\<rparr>) (\<lambda>s. s))
                  (engine_with_tracker_state 0)))
       = [OnTrackerConnectionChanged 3 1, OnTrackerConnectionChanged 4 1]
   \<and> snd (snd (parse nothing_meanwhile
                  (tracker_values (\<lambda>s. s\<lparr>trackerstate := 1\<rparr>) (\<lambda>s. s))
                  (engine_with_tracker_state 2)))
       = [OnTrackerConnectionChanged 3 1, OnTrackerConnectionChanged 4 1]"
  by (simp add: engine_with_tracker_state_def tracker_values_def example_defs dispatch_defs
      ServerState_zero_def)

text \<open>
  C7. A message whose text, category or status code cannot be parsed, and a message
  with the error status, is dropped: no listener is called, nothing is sent, and the
  server state, the gaze data, the calibration result, the screen, the calibration
  tracker and the engine's state stay as they are.
\<close>

theorem broken_or_error_message_discarded:
  assumes "message = None \<or> (\<exists>tree. message = Some tree \<and>
             (p_category tree = None \<or> p_statuscode tree = None
              \<or> p_statuscode tree = Some GASC_ERROR))"
    and "on_message meanwhile message st = (st', evs)"
  shows "evs = [] \<and> m_server_proxy st' = m_server_proxy st \<and> m_gaze_data st' = m_gaze_data st
    \<and> m_calib_result st' = m_calib_result st \<and> m_screen st' = m_screen st
    \<and> m_calibration_proxy st' = m_calibration_proxy st \<and> m_state st' = m_state st"
  using assms
  by (auto simp add: on_message_def parse_def is_statuscode_def is_notification_def Let_def
      split: option.splits if_splits)

theorem broken_or_error_message_discarded_witness:
  "p_statuscode error_reply = Some GASC_ERROR
   \<and> snd (on_message nothing_meanwhile (Some error_reply) running_engine) = []
   \<and> m_server_proxy (fst (on_message nothing_meanwhile (Some error_reply) running_engine))
       = m_server_proxy running_engine
   \<and> m_gaze_data (fst (on_message nothing_meanwhile (Some error_reply) running_engine))
       = m_gaze_data running_engine
   \<and> m_calib_result (fst (on_message nothing_meanwhile (Some error_reply) running_engine))
       = m_calib_result running_engine
   \<and> m_screen (fst (on_message nothing_meanwhile (Some error_reply) running_engine))
       = m_screen running_engine"
proof -
  obtain st' evs
    where p: "on_message nothing_meanwhile (Some error_reply) running_engine = (st', evs)"
    by (cases "on_message nothing_meanwhile (Some error_reply) running_engine")
  have e: "p_statuscode error_reply = Some GASC_ERROR"
    by (simp add: error_reply_def)
  have h: "Some error_reply = None \<or> (\<exists>tree. Some error_reply = Some tree \<and>
             (p_category tree = None \<or> p_statuscode tree = None
              \<or> p_statuscode tree = Some GASC_ERROR))"
    using e by simp
  show ?thesis
    using broken_or_error_message_discarded [OF h p] p e by simp
qed

text \<open>
  C8. A calibration/pointend reply that carries a result whose success flag is false:
  the calibration-result snapshot stays, no calibration-result listener is called, the
  progress tracker is advanced by the point and not cleared, and each
  calibration-process handler is called once with the progress and once with the failed
  result.
\<close>

theorem failed_result_leaves_snapshot:
  assumes "p_category tree = Some GAC_CALIBRATION" "p_statuscode tree = Some GASC_OK"
    "p_request tree = Some GAR_POINTEND"
    "p_calib_result tree = Some (Some calib_result)" "\<not> result calib_result"
    "parse meanwhile tree st = (reply, st', evs)"
  shows "m_calib_result st' = m_calib_result st
    \<and> (\<forall>l b c. OnCalibrationChanged l b c \<notin> set evs)
    \<and> m_calibration_proxy st' = point_end (m_calibration_proxy st)
    \<and> evs = map (\<lambda>l. OnCalibrationProgress l
                       (get_progress (point_end (m_calibration_proxy st))))
                (calibration_process_handlers st)
          @ map (\<lambda>l. OnCalibrationResult l False calib_result)
                (calibration_process_handlers st)"
  using assms
  by (auto simp add: parse_def is_statuscode_def is_notification_def is_category_def
      is_request_def calibration_reply_def point_end_reply_def Let_def)

theorem failed_result_leaves_snapshot_witness:
  "\<not> result failed_result
   \<and> m_calib_result (fst (snd (parse nothing_meanwhile (point_end_message (Some failed_result))
        running_engine))) = m_calib_result running_engine
   \<and> m_calibration_proxy (fst (snd (parse nothing_meanwhile
        (point_end_message (Some failed_result)) running_engine)))
       = point_end (m_calibration_proxy running_engine)
   \<and> snd (snd (parse nothing_meanwhile (point_end_message (Some failed_result)) running_engine))
       = [OnCalibrationProgress 5 (Finite 0), OnCalibrationResult 5 False failed_result]"
proof -
  let ?tree = "point_end_message (Some failed_result)"
  obtain r1 st1 ev1 where p1: "parse nothing_meanwhile ?tree running_engine = (r1, st1, ev1)"
    by (cases "parse nothing_meanwhile ?tree running_engine")
  have f: "\<not> result failed_result"
    by (simp add: failed_result_def)
  have g: "get_progress (point_end (m_calibration_proxy running_engine)) = Finite 0"
    by (simp add: running_engine_def Engine_init_def CalibrationProxy_init_def point_end_def
        get_progress_def)
  have "m_calib_result st1 = m_calib_result running_engine
    \<and> (\<forall>l b c. OnCalibrationChanged l b c \<notin> set ev1)
    \<and> m_calibration_proxy st1 = point_end (m_calibration_proxy running_engine)
    \<and> ev1 = map (\<lambda>l. OnCalibrationProgress l
                       (get_progress (point_end (m_calibration_proxy running_engine))))
                (calibration_process_handlers running_engine)
          @ map (\<lambda>l. OnCalibrationResult l False failed_result)
                (calibration_process_handlers running_engine)"
    by (rule failed_result_leaves_snapshot [OF _ _ _ _ f p1])
      (simp_all add: point_end_message_def acknowledgement_def)
  then show ?thesis
    using f g p1 by (simp add: running_engine_def)
qed

subsection \<open>connect\<close>

text \<open>Nothing that is delivered makes the engine send the full query of \<^verbatim>\<open>get_tracker_state\<close>.\<close>

lemma tracker_get_reply_sends_nothing:
  "SocketSendSync m \<notin> set (snd (tracker_get_reply tree st))"
  by (auto simp add: tracker_get_reply_def Let_def split: option.splits)

lemma calibration_reply_sends_nothing:
  "SocketSendSync m \<notin> set (snd (calibration_reply reply tree st))"
  by (auto simp add: calibration_reply_def point_end_reply_def Let_def split: option.splits)

lemma parse_no_baseline:
  assumes "\<And>s. SocketSendSync get_tracker_state_request \<notin> set (snd (meanwhile s))"
  shows "SocketSendSync get_tracker_state_request
           \<notin> set (snd (snd (parse meanwhile tree st)))"
proof -
  have n: "SocketSendSync get_tracker_state_request
             \<notin> set (snd (send_sync meanwhile (changes_request vs) st))" for vs
    using assms changes_request_not_baseline [of vs]
    by (simp add: send_sync_unfold)
  show ?thesis
    using n tracker_get_reply_sends_nothing calibration_reply_sends_nothing
    by (simp add: parse_def Let_def case_prod_beta split: option.splits)
qed

lemma on_message_no_baseline:
  assumes "\<And>s. SocketSendSync get_tracker_state_request \<notin> set (snd (meanwhile s))"
  shows "SocketSendSync get_tracker_state_request
           \<notin> set (snd (on_message meanwhile message st))"
  using parse_no_baseline [of meanwhile, OF assms]
  by (simp add: on_message_def case_prod_beta split: option.splits)

lemma on_disconnected_sends_nothing:
  "SocketSendSync m \<notin> set (snd (on_disconnected st))"
  by (auto simp add: on_disconnected_def disconnect_def)

lemma deliver_no_baseline:
  "SocketSendSync get_tracker_state_request \<notin> set (snd (deliver d st))"
  "SocketSendSync get_tracker_state_request \<notin> set (snd (deliver_all ds st))"
proof (induction d st and ds st rule: deliver_deliver_all.induct)
  case (1 message ds st)
  then show ?case by (simp add: on_message_no_baseline)
next
  case (2 st)
  then show ?case by (simp add: on_disconnected_sends_nothing)
next
  case (3 st)
  then show ?case by simp
next
  case (4 d ds st)
  obtain st1 ev1 where d: "deliver d st = (st1, ev1)"
    by (cases "deliver d st")
  have a: "SocketSendSync get_tracker_state_request \<notin> set ev1"
    using "4.IH"(1) d by simp
  show ?case
  proof (cases "blocked_on_lock ev1")
    case True
    then show ?thesis
      using a d by simp
  next
    case False
    have b: "SocketSendSync get_tracker_state_request \<notin> set (snd (deliver_all ds st1))"
      using "4.IH"(2) [OF refl d [symmetric] False] .
    show ?thesis
      using a b d False by (simp add: case_prod_beta)
  qed
qed

lemma wait_for_version_no_baseline:
  "SocketSendSync get_tracker_state_request \<notin> set (snd (wait_for_version wait ticks st))"
proof (induction wait ticks st rule: wait_for_version.induct)
  case (1 wait ticks st)
  show ?case
  proof (cases "version (m_server_proxy st) = 0 \<and> wait > 0")
    case True
    obtain st1 ev1
      where d: "deliver_all (case ticks of [] \<Rightarrow> [] | t # _ \<Rightarrow> t) st = (st1, ev1)"
      by (cases "deliver_all (case ticks of [] \<Rightarrow> [] | t # _ \<Rightarrow> t) st")
    have a: "SocketSendSync get_tracker_state_request \<notin> set ev1"
      using deliver_no_baseline(2) [of "case ticks of [] \<Rightarrow> [] | t # _ \<Rightarrow> t" st] d by simp
    have b: "SocketSendSync get_tracker_state_request
               \<notin> set (snd (wait_for_version (wait - 1) (tl ticks) st1))"
      using "1.IH" [OF True refl d [symmetric]] .
    show ?thesis
      using True a b d by (subst wait_for_version.simps) (simp add: case_prod_beta)
  next
    case False
    then show ?thesis by (subst wait_for_version.simps) auto
  qed
qed

lemma get_default_version_no_baseline:
  "SocketSendSync get_tracker_state_request
     \<notin> set (snd (snd (get_default_version ticks st)))"
  using wait_for_version_no_baseline
  by (simp add: get_default_version_def send_async_def Let_def case_prod_beta)

text \<open>
  C2. \<^verbatim>\<open>connect\<close> on a stopped engine whose socket connects, with a server whose version
  (as \<^verbatim>\<open>get_default_version\<close> returns it) is below the required one: the call returns
  false, the engine is stopped, and the full query of \<^verbatim>\<open>get_tracker_state\<close> has not been
  sent.
\<close>

theorem connect_refuses_old_server:
  assumes "m_state st = AS_STOPPED" "socket_connects peer"
    "fst (get_default_version (version_ticks peer) (freshly_connected host port st)) < VERSION"
    "connect host port peer st = (ok, st', evs)"
  shows "\<not> ok \<and> m_state st' = AS_STOPPED
    \<and> SocketSendSync get_tracker_state_request \<notin> set evs"
proof -
  obtain v st2 ev1
    where g: "get_default_version (version_ticks peer) (freshly_connected host port st)
                = (v, st2, ev1)"
    by (cases "get_default_version (version_ticks peer) (freshly_connected host port st)")
  have v: "v < VERSION"
    using assms(3) g by simp
  have e1: "SocketSendSync get_tracker_state_request \<notin> set ev1"
    using get_default_version_no_baseline
      [of "version_ticks peer" "freshly_connected host port st"] g
    by simp
  have c: "connect host port peer st =
      (False, fst (disconnect st2), [SocketConnect host port] @ ev1 @ snd (disconnect st2))"
    using assms(1,2) g v by (simp add: connect_def Let_def split: prod.splits)
  show ?thesis
    using c assms(4) e1 disconnect_stops [of st2] disconnect_no_send [of _ st2] by auto
qed

theorem connect_refuses_old_server_witness:
  "fst (get_default_version (version_ticks old_server)
          (freshly_connected ''127.0.0.1'' ''6555'' (Engine_init json_socket))) = 1
   \<and> \<not> fst (connect ''127.0.0.1'' ''6555'' old_server (Engine_init json_socket))
   \<and> m_state (fst (snd (connect ''127.0.0.1'' ''6555'' old_server (Engine_init json_socket))))
       = AS_STOPPED
   \<and> SocketSendSync get_tracker_state_request
       \<notin> set (snd (snd (connect ''127.0.0.1'' ''6555'' old_server (Engine_init json_socket))))"
proof -
  have s: "m_state (Engine_init json_socket) = AS_STOPPED"
    by (simp add: Engine_init_def)
  have c: "socket_connects old_server"
    by (simp add: old_server_def)
  have v: "fst (get_default_version (version_ticks old_server)
          (freshly_connected ''127.0.0.1'' ''6555'' (Engine_init json_socket))) = 1"
    by (simp add: get_default_version_def old_server_def freshly_connected_def
        tracker_values_def wait_for_version.simps [of 5000] wait_for_version.simps [of 4999]
        example_defs dispatch_defs ServerState_zero_def)
  have lt: "fst (get_default_version (version_ticks old_server)
          (freshly_connected ''127.0.0.1'' ''6555'' (Engine_init json_socket))) < VERSION"
    using v by (simp add: VERSION_def)
  show ?thesis
    using v connect_refuses_old_server [OF s c lt,
        of "fst (connect ''127.0.0.1'' ''6555'' old_server (Engine_init json_socket))"
           "fst (snd (connect ''127.0.0.1'' ''6555'' old_server (Engine_init json_socket)))"
           "snd (snd (connect ''127.0.0.1'' ''6555'' old_server (Engine_init json_socket)))"]
    by simp
qed

text \<open>
  For comparison, a server of the required version that acknowledges \<^verbatim>\<open>set_version\<close>:
  \<^verbatim>\<open>connect\<close> returns true, the engine is running, the connection-state listeners hear
  \<open>True\<close> and the full query is sent.
\<close>

lemma connect_current_server:
  "(let (ok, st, evs) =
          connect ''127.0.0.1'' ''6555'' current_server
            ((Engine_init json_socket)\<lparr>connection_state_listeners := [6]\<rparr>)
    in (ok, m_state st, version (m_server_proxy st), m_screen st,
        filter (\<lambda>e. e \<noteq> SocketSend version_query) evs))
   = (True, AS_RUNNING, 2, wide_screen,
      [SocketConnect ''127.0.0.1'' ''6555'', SocketSendSync (set_version_request 2),
       OnConnectionStateChanged 6 True, SocketSendSync get_tracker_state_request])"
  by (simp add: connect_def get_default_version_def current_server_def freshly_connected_def
      set_version_def get_tracker_state_def VERSION_def SR_SET_VERSION_def
      tracker_values_def wait_for_version.simps [of 5000] wait_for_version.simps [of 4999]
      example_defs dispatch_defs ServerState_zero_def Screen_zero_def wide_screen_def)

end
